theory Spec2Isabelle
  imports Main
begin

section \<open>JavaScript values and errors\<close>

text \<open>
  The client is JavaScript. The arguments whose dynamic type the code inspects
  (\<^verbatim>\<open>mode\<close>, \<^verbatim>\<open>sidekey\<close>) are values of \<open>jsval\<close>; \<open>JObj\<close> stands for any
  object, told apart by an identity. Numbers that the code uses as counters and
  positions are integers. Strings are lists of characters; \<^verbatim>\<open>length\<close> and
  \<^verbatim>\<open>padEnd\<close> count them one by one, as JavaScript counts code units.
\<close>

datatype jsval = JUndefined | JNull | JBool bool | JNum int | JStr string | JObj nat

text \<open>The conversion to a boolean that \<^verbatim>\<open>if (x)\<close>, \<^verbatim>\<open>!x\<close> and \<^verbatim>\<open>x || y\<close> apply.\<close>

fun truthy :: "jsval \<Rightarrow> bool" where
  "truthy JUndefined = False"
| "truthy JNull = False"
| "truthy (JBool b) = b"
| "truthy (JNum n) = (n \<noteq> 0)"
| "truthy (JStr s) = (s \<noteq> [])"
| "truthy (JObj _) = True"

text \<open>\<^verbatim>\<open>s.padEnd(n, c)\<close> with a one-character pad string.\<close>

definition padEnd :: "string \<Rightarrow> nat \<Rightarrow> char \<Rightarrow> string" where
  "padEnd s n c = (if n \<le> length s then s else s @ replicate (n - length s) c)"

text \<open>
  An exception: the \<^verbatim>\<open>TypeError\<close> the language raises itself, or a value thrown
  by one of the external collaborators (codec, ledger client, reader).
\<close>

datatype js_error = TypeError | Thrown string

section \<open>The data model\<close>

record channel_state =
  side_key :: jsval
  mode :: jsval
  next_root :: "string option"
  security :: int
  start :: int
  count :: int
  next_count :: int
  index :: int

record subscription =
  channelKey :: jsval
  timeout :: int
  sub_root :: string
  sub_next_root :: "string option"
  active :: bool

record state =
  subscribed :: "(string \<times> subscription) list"
  channel :: channel_state
  seed :: string

text \<open>What \<^verbatim>\<open>Mam.createMessage\<close> hands back.\<close>

record mam_message =
  mam_payload :: string
  mam_root :: string
  mam_next_root :: string

text \<open>What \<^verbatim>\<open>Mam.decodeMessage\<close> hands back when it does not raise.\<close>

record decoded =
  dec_payload :: string
  dec_next_root :: string

text \<open>A transaction object of the ledger client.\<close>

record txo =
  tx_bundle :: string
  signatureMessageFragment :: string
  currentIndex :: int
  lastIndex :: int

text \<open>
  What \<^verbatim>\<open>reader.next()\<close> resolves to: nothing at all, an object without a
  \<^verbatim>\<open>value\<close>, or an object whose \<^verbatim>\<open>value\<close> is an array of messages.
\<close>

record reader_message =
  nextRoot :: string
  payload :: string

datatype reader_result = NoResult | NoValue | Value "reader_message list"

datatype reader_mode = Public | Old

text \<open>
  The collaborators the module calls and does not define: the masking codec
  (\<^verbatim>\<open>Mam\<close>), the converter, the sponge of \<^verbatim>\<open>Encryption.hash\<close>, the ledger client
  of \<^verbatim>\<open>composeAPI\<close> and the \<^verbatim>\<open>Reader\<close>. They are parameters of the model. The
  codec's decoder, the ledger client and the reader can raise.
\<close>

record externals =
  createMessage :: "string \<Rightarrow> string \<Rightarrow> jsval \<Rightarrow> channel_state \<Rightarrow> mam_message"
  decodeMessage :: "string \<Rightarrow> jsval \<Rightarrow> string \<Rightarrow> js_error + decoded"
  trits :: "string \<Rightarrow> int list"
  trytes :: "int list \<Rightarrow> string"
  encryption_hash :: "int \<Rightarrow> int list \<Rightarrow> int list"
  findTransactions :: "string list \<Rightarrow> js_error + string list"
  getTransactionObjects :: "string list \<Rightarrow> js_error + txo list"
  reader_next :: "reader_mode \<Rightarrow> string \<Rightarrow> jsval \<Rightarrow> js_error + reader_result"

section \<open>The channel controller\<close>

text \<open>\<^verbatim>\<open>init\<close>, with the seed and the security level given.\<close>

definition init :: "string \<Rightarrow> int \<Rightarrow> state" where
  "init sd sec =
     \<lparr>subscribed = [],
      channel = \<lparr>side_key = JNull, mode = JStr ''public'', next_root = None,
                 security = sec, start = 0, count = 1, next_count = 1, index = 0\<rparr>,
      seed = sd\<rparr>"

text \<open>
  \<^verbatim>\<open>changeMode\<close> mutates the state object it is given and returns either that
  object or the \<^verbatim>\<open>undefined\<close> of \<^verbatim>\<open>console.log\<close>. The model returns the value
  returned (\<open>None\<close> for \<^verbatim>\<open>undefined\<close>), the state object after the call, and the
  lines written to the console.
\<close>

record changeMode_result =
  cm_returned :: "state option"
  cm_state :: state
  cm_console :: "string list"

definition changeMode :: "state \<Rightarrow> jsval \<Rightarrow> jsval \<Rightarrow> changeMode_result" where
  "changeMode st md sidekey =
     (if md \<noteq> JStr ''public'' \<and> md \<noteq> JStr ''private'' \<and> md \<noteq> JStr ''restricted''
      then \<lparr>cm_returned = None, cm_state = st,
            cm_console = [''Did not recognise mode!'']\<rparr>
      else if md = JStr ''restricted'' \<and> \<not> truthy sidekey
      then \<lparr>cm_returned = None, cm_state = st,
            cm_console = [''You must specify a side key for a restricted channel'']\<rparr>
      else
        let st1 = (if truthy sidekey
                   then st\<lparr>channel := (channel st)\<lparr>side_key :=
                          (case sidekey of JStr s \<Rightarrow> JStr (padEnd s 81 CHR ''9'')
                                         | _ \<Rightarrow> sidekey)\<rparr>\<rparr>
                   else st);
            st2 = st1\<lparr>channel := (channel st1)\<lparr>mode := md\<rparr>\<rparr>
        in \<lparr>cm_returned = Some st2, cm_state = st2, cm_console = []\<rparr>)"

text \<open>
  The numbers of the channel state are JavaScript numbers: doubles. The model
  takes them to be finite and whole, and writes them as integers. The result
  of \<^verbatim>\<open>+\<close>, \<^verbatim>\<open>-\<close> and \<^verbatim>\<open>++\<close> is the double nearest to the exact result, the one
  with the even significand when two are equally near. Up to \<open>2 ^ 53\<close> in size
  every whole number is a double; beyond, a double has a significand of 53
  bits. (From \<open>2 ^ 1024\<close> on the double is \<^verbatim>\<open>Infinity\<close>, which the model does not
  have.)
\<close>

function bit_length :: "int \<Rightarrow> nat" where
  "bit_length n = (if n \<le> 0 then 0 else Suc (bit_length (n div 2)))"
  by pat_completeness auto
termination
  by (relation "measure nat") auto

declare bit_length.simps [simp del]

definition to_double :: "int \<Rightarrow> int" where
  "to_double x =
     (let a = \<bar>x\<bar>
      in if a \<le> 2 ^ 53 then x
         else (let q = 2 ^ (bit_length a - 53);
                   m = a div q;
                   r = a mod q;
                   m' = (if 2 * r < q then m
                         else if q < 2 * r then m + 1
                         else if even m then m else m + 1)
               in sgn x * (m' * q)))"

text \<open>
  \<^verbatim>\<open>create\<close>: the codec masks the message, the cursor of the merkle tree moves on,
  and the attachment address is derived from the root the codec returned.
\<close>

record created =
  cr_state :: state
  cr_payload :: string
  cr_root :: string
  cr_address :: string

definition create :: "externals \<Rightarrow> state \<Rightarrow> string \<Rightarrow> created" where
  "create ext st message =
     (let ch = channel st;
          mam = createMessage ext (seed st) message (side_key ch) ch;
          ch1 = (if index ch = to_double (count ch - 1)
                 then ch\<lparr>start := to_double (next_count ch + start ch), index := 0\<rparr>
                 else ch\<lparr>index := to_double (index ch + 1)\<rparr>);
          ch2 = ch1\<lparr>next_root := Some (mam_next_root mam)\<rparr>;
          st' = st\<lparr>channel := ch2\<rparr>;
          address = (if mode ch2 \<noteq> JStr ''public''
                     then trytes ext (encryption_hash ext 81 (trits ext (mam_root mam)))
                     else mam_root mam)
      in \<lparr>cr_state = st', cr_payload = mam_payload mam, cr_root = mam_root mam,
          cr_address = address\<rparr>)"

text \<open>The helper \<^verbatim>\<open>hash\<close>: a falsy number of rounds (0) is replaced by 81.\<close>

definition hash :: "externals \<Rightarrow> string \<Rightarrow> int \<Rightarrow> string" where
  "hash ext data rounds =
     trytes ext (encryption_hash ext (if rounds \<noteq> 0 then rounds else 81) (trits ext data))"

text \<open>
  The address \<^verbatim>\<open>fetchSingle\<close> looks up (its first four lines). The parameter
  \<^verbatim>\<open>rounds\<close> is \<open>None\<close> when the caller leaves it out; its default is 81.
\<close>

definition fetchSingle_address :: "externals \<Rightarrow> string \<Rightarrow> jsval \<Rightarrow> int option \<Rightarrow> string" where
  "fetchSingle_address ext root md rounds =
     (let r = (case rounds of None \<Rightarrow> 81 | Some n \<Rightarrow> n)
      in if md = JStr ''private'' \<or> md = JStr ''restricted'' then hash ext root r else root)"

section \<open>The fragment reassembler\<close>

text \<open>
  \<^verbatim>\<open>txHashesToMessages\<close> keeps, for every bundle in flight, the array of the
  pairs \<^verbatim>\<open>[currentIndex, signatureMessageFragment]\<close> seen so far, in the object
  \<^verbatim>\<open>bundles\<close>. Bundle identifiers are tryte strings (capital letters and 9), so
  none of them is a property that an empty object inherits, and \<^verbatim>\<open>bundle in
  bundles\<close> is a look-up in the map.
\<close>

type_synonym fragment = "int \<times> string"

type_synonym bundles = "string \<rightharpoonup> fragment list"

text \<open>
  The comparison function handed to \<^verbatim>\<open>sort\<close>, \<^verbatim>\<open>(a, b) => b[0] < a[0]\<close>. It
  returns a boolean, which the sort converts to a number: 1 for true, 0 for
  false. It never returns a negative number.
\<close>

definition comparefn :: "fragment \<Rightarrow> fragment \<Rightarrow> int" where
  "comparefn a b = (if fst b < fst a then 1 else 0)"

text \<open>
  \<^verbatim>\<open>Array.prototype.sort\<close> belongs to the engine, not to the module, and the
  language leaves the order it produces to the engine when the comparison
  function is not a consistent one (this one is not: it never answers "less").
  \<^verbatim>\<open>processTx\<close> therefore takes the sort as a parameter.
\<close>

type_synonym sorter = "(fragment \<Rightarrow> fragment \<Rightarrow> int) \<Rightarrow> fragment list \<Rightarrow> fragment list"

text \<open>Lines 201 to 205: the array of the bundle once the fragment is pushed.\<close>

definition push_fragment :: "bundles \<Rightarrow> txo \<Rightarrow> fragment list" where
  "push_fragment bs t =
     (case bs (tx_bundle t) of
        Some l \<Rightarrow> l @ [(currentIndex t, signatureMessageFragment t)]
      | None \<Rightarrow> [(currentIndex t, signatureMessageFragment t)])"

text \<open>The entries recorded for a bundle: none when the bundle has no array.\<close>

definition recorded :: "bundles \<Rightarrow> string \<Rightarrow> fragment list" where
  "recorded bs b = (case bs b of None \<Rightarrow> [] | Some l \<Rightarrow> l)"

text \<open>
  \<^verbatim>\<open>processTx\<close> returns the object \<^verbatim>\<open>bundles\<close> after the call and the value
  returned: the reassembled payload, or \<open>None\<close> for \<^verbatim>\<open>undefined\<close>.
\<close>

definition processTx :: "sorter \<Rightarrow> bundles \<Rightarrow> txo \<Rightarrow> bundles \<times> string option" where
  "processTx srt bs t =
     (let b = tx_bundle t;
          maxIdx = lastIndex t;
          l = push_fragment bs t;
          bs1 = bs(b \<mapsto> l)
      in if int (length l) = maxIdx + 1
         then (bs1(b := None), Some (foldl (\<lambda>acc n. acc @ snd n) [] (srt comparefn l)))
         else (bs1, None))"

text \<open>\<^verbatim>\<open>objs.map(result => processTx(result))\<close>, threading \<^verbatim>\<open>bundles\<close> through.\<close>

fun map_processTx :: "sorter \<Rightarrow> bundles \<Rightarrow> txo list \<Rightarrow> bundles \<times> string option list" where
  "map_processTx srt bs [] = (bs, [])"
| "map_processTx srt bs (t # ts) =
     (let (bs1, item) = processTx srt bs t;
          (bs2, items) = map_processTx srt bs1 ts
      in (bs2, item # items))"

definition txHashesToMessages :: "externals \<Rightarrow> sorter \<Rightarrow> string list \<Rightarrow> js_error + string list" where
  "txHashesToMessages ext srt hashes =
     (case getTransactionObjects ext hashes of
        Inl e \<Rightarrow> Inl e
      | Inr objs \<Rightarrow>
          Inr (map the (filter (\<lambda>item. item \<noteq> None) (snd (map_processTx srt Map.empty objs)))))"

subsection \<open>The sort of V8\<close>

text \<open>
  The module runs on Node.js. Since V8 7.0 (Node.js 11) \<^verbatim>\<open>Array.prototype.sort\<close>
  is TimSort (\<^verbatim>\<open>third_party/v8/builtins/array-sort.tq\<close>). An array of fewer than
  two elements is left alone. Otherwise \<^verbatim>\<open>CountAndMakeRun\<close> measures the run the
  array starts with: descending when the second element compares below the
  first (\<^verbatim>\<open>order < 0\<close>), and then extended while the next element compares below
  its predecessor, else extended while the next element does not compare below
  its predecessor; a descending run is reversed in place.
\<close>

fun extend_run :: "('a \<Rightarrow> 'a \<Rightarrow> int) \<Rightarrow> bool \<Rightarrow> 'a \<Rightarrow> 'a list \<Rightarrow> nat" where
  "extend_run cmp desc prev [] = 0"
| "extend_run cmp desc prev (x # xs) =
     (let order = cmp x prev
      in if desc then (if 0 \<le> order then 0 else Suc (extend_run cmp desc x xs))
         else (if order < 0 then 0 else Suc (extend_run cmp desc x xs)))"

definition CountAndMakeRun :: "('a \<Rightarrow> 'a \<Rightarrow> int) \<Rightarrow> 'a list \<Rightarrow> nat \<times> 'a list" where
  "CountAndMakeRun cmp xs =
     (case xs of
        x0 # x1 # rest \<Rightarrow>
          (let desc = (cmp x1 x0 < 0);
               n = 2 + extend_run cmp desc x1 rest
           in (n, if desc then rev (take n xs) @ drop n xs else xs))
      | _ \<Rightarrow> (length xs, xs))"

text \<open>
  \<^verbatim>\<open>BinaryInsertionSort\<close> then inserts every element behind the run into the
  sorted part before it, at the place a binary search finds: the search goes
  left only when the pivot compares below the middle element.
\<close>

function binary_search :: "('a \<Rightarrow> 'a \<Rightarrow> int) \<Rightarrow> 'a \<Rightarrow> 'a list \<Rightarrow> nat \<Rightarrow> nat \<Rightarrow> nat" where
  "binary_search cmp pivot xs left right =
     (if left < right
      then (let mid = left + (right - left) div 2
            in if cmp pivot (xs ! mid) < 0
               then binary_search cmp pivot xs left mid
               else binary_search cmp pivot xs (mid + 1) right)
      else left)"
  by pat_completeness auto
termination
  by (relation "measure (\<lambda>(cmp, pivot, xs, left, right). right - left)") auto

function BinaryInsertionSort :: "('a \<Rightarrow> 'a \<Rightarrow> int) \<Rightarrow> 'a list \<Rightarrow> nat \<Rightarrow> nat \<Rightarrow> 'a list" where
  "BinaryInsertionSort cmp xs fst_unsorted high =
     (if fst_unsorted < high
      then (let pivot = xs ! fst_unsorted;
                left = binary_search cmp pivot xs 0 fst_unsorted;
                ys = take left xs @ [pivot] @ drop left (take fst_unsorted xs) @ drop (Suc fst_unsorted) xs
            in BinaryInsertionSort cmp ys (Suc fst_unsorted) high)
      else xs)"
  by pat_completeness auto
termination
  by (relation "measure (\<lambda>(cmp, xs, fst_unsorted, high). high - fst_unsorted)") auto

text \<open>
  Below 64 elements the minimal run length is the length of the array, so the
  first run is extended by binary insertion to the whole array and nothing is
  merged. From 64 elements on, an array whose first run covers it is finished
  as well; for the other arrays of that size V8 goes on to merge runs, which is
  not modelled: \<open>ArrayTimSort\<close> is \<open>None\<close> there.
\<close>

definition ArrayTimSort :: "('a \<Rightarrow> 'a \<Rightarrow> int) \<Rightarrow> 'a list \<Rightarrow> 'a list option" where
  "ArrayTimSort cmp xs =
     (if length xs < 2 then Some xs
      else (let (run, ys) = CountAndMakeRun cmp xs
            in if run = length xs then Some ys
               else if length xs < 64 then Some (BinaryInsertionSort cmp ys run (length xs))
               else None))"

text \<open>
  The sorter of V8. Where \<open>ArrayTimSort\<close> has no answer the array is returned
  as it is; \<^verbatim>\<open>processTx\<close> never gets there, since its comparison function never
  returns a negative number and so the first run always covers the array.
\<close>

definition v8_sort :: "('a \<Rightarrow> 'a \<Rightarrow> int) \<Rightarrow> 'a list \<Rightarrow> 'a list" where
  "v8_sort cmp xs = (case ArrayTimSort cmp xs of Some ys \<Rightarrow> ys | None \<Rightarrow> xs)"

text \<open>A transaction object, written in one line.\<close>

definition tx :: "string \<Rightarrow> int \<Rightarrow> string \<Rightarrow> int \<Rightarrow> txo" where
  "tx b idx msg maxIdx =
     \<lparr>tx_bundle = b, signatureMessageFragment = msg, currentIndex = idx, lastIndex = maxIdx\<rparr>"

section \<open>Decoding and the single fetch\<close>

text \<open>
  \<^verbatim>\<open>decode\<close> pads a string side key, calls the codec and has no \<^verbatim>\<open>return\<close>. It
  raises what the codec raises. The value it returns is written as an option,
  \<open>None\<close> for \<^verbatim>\<open>undefined\<close>, so that the destructuring in \<^verbatim>\<open>fetchSingle\<close> has
  both its cases.
\<close>

definition decode :: "externals \<Rightarrow> string \<Rightarrow> jsval \<Rightarrow> string \<Rightarrow> js_error + decoded option" where
  "decode ext pl sidekey root =
     (let key = (case sidekey of JStr s \<Rightarrow> JStr (padEnd s 81 CHR ''9'') | _ \<Rightarrow> sidekey)
      in case decodeMessage ext pl key root of
           Inl e \<Rightarrow> Inl e
         | Inr d \<Rightarrow> Inr None)"

record fetched =
  fs_payload :: string
  fs_nextRoot :: string

text \<open>
  The loop of \<^verbatim>\<open>fetchSingle\<close> over the reassembled messages. Destructuring
  \<^verbatim>\<open>undefined\<close> raises a \<^verbatim>\<open>TypeError\<close>; whatever is raised in the \<^verbatim>\<open>try\<close> block is
  written to the console and the loop goes on. When the loop ends the function
  returns \<^verbatim>\<open>undefined\<close>.
\<close>

fun fetchSingle_loop ::
  "externals \<Rightarrow> jsval \<Rightarrow> string \<Rightarrow> string list \<Rightarrow> js_error list \<Rightarrow> fetched option \<times> js_error list"
where
  "fetchSingle_loop ext sidekey root [] console = (None, console)"
| "fetchSingle_loop ext sidekey root (message # rest) console =
     (case decode ext message sidekey root of
        Inl e \<Rightarrow> fetchSingle_loop ext sidekey root rest (console @ [e])
      | Inr None \<Rightarrow> fetchSingle_loop ext sidekey root rest (console @ [TypeError])
      | Inr (Some d) \<Rightarrow>
          (Some \<lparr>fs_payload = dec_payload d, fs_nextRoot = dec_next_root d\<rparr>, console))"

text \<open>
  \<^verbatim>\<open>fetchSingle\<close>: an error of the ledger client rejects the promise (\<open>Inl\<close>);
  otherwise the result is the value returned and the console.
\<close>

definition fetchSingle ::
  "externals \<Rightarrow> sorter \<Rightarrow> string \<Rightarrow> jsval \<Rightarrow> jsval \<Rightarrow> int option
     \<Rightarrow> js_error + (fetched option \<times> js_error list)"
where
  "fetchSingle ext srt root md sidekey rounds =
     (let address = fetchSingle_address ext root md rounds
      in case findTransactions ext [address] of
           Inl e \<Rightarrow> Inl e
         | Inr hashes \<Rightarrow>
             (case txHashesToMessages ext srt hashes of
                Inl e \<Rightarrow> Inl e
              | Inr messagesGen \<Rightarrow> Inr (fetchSingle_loop ext sidekey root messagesGen [])))"

section \<open>The chain traversal\<close>

text \<open>\<^verbatim>\<open>message && message.value && message.value[0]\<close>.\<close>

fun first_message :: "reader_result \<Rightarrow> reader_message option" where
  "first_message NoResult = None"
| "first_message NoValue = None"
| "first_message (Value []) = None"
| "first_message (Value (m # ms)) = Some m"

text \<open>
  The state of the \<^verbatim>\<open>do ... while\<close> loop of \<^verbatim>\<open>fetch\<close> when it is left: the error
  caught, if the reader raised; the array \<^verbatim>\<open>messages\<close>; the payloads handed to
  the callback; and \<^verbatim>\<open>nextRoot\<close>.
\<close>

record loop_exit =
  le_caught :: "js_error option"
  le_messages :: "string list"
  le_delivered :: "string list"
  le_nextRoot :: string

text \<open>
  The loop may run for ever (a chain that never ends): it is a partial
  function, \<open>None\<close> when it does not return. \<open>rd\<close> is \<^verbatim>\<open>reader.next()\<close> for a reader
  built on a root (the context and the HTTP client are the reader's); \<open>cb\<close>
  tells whether a callback was supplied, and a callback returns normally. An
  error raised by the reader leaves the loop for the \<^verbatim>\<open>catch\<close> block.
\<close>

partial_function (option) fetch_loop ::
  "(string \<Rightarrow> js_error + reader_result) \<Rightarrow> bool \<Rightarrow> string list \<Rightarrow> string list \<Rightarrow> string
     \<Rightarrow> loop_exit option"
where
  "fetch_loop rd cb msgs delivered root =
     (case rd root of
        Inl e \<Rightarrow>
          Some \<lparr>le_caught = Some e, le_messages = msgs, le_delivered = delivered,
                le_nextRoot = root\<rparr>
      | Inr message \<Rightarrow>
          (case first_message message of
             None \<Rightarrow>
               Some \<lparr>le_caught = None, le_messages = msgs, le_delivered = delivered,
                     le_nextRoot = root\<rparr>
           | Some m \<Rightarrow>
               fetch_loop rd cb (msgs @ [payload m])
                 (if cb then delivered @ [payload m] else delivered) (nextRoot m)))"

declare fetch_loop.simps [code]

text \<open>
  \<^verbatim>\<open>fetch\<close> returns the object \<^verbatim>\<open>{ messages, nextRoot }\<close>, or, from the \<^verbatim>\<open>catch\<close>
  block, what \<^verbatim>\<open>console.error\<close> returns: \<^verbatim>\<open>undefined\<close> (the \<^verbatim>\<open>return e\<close> behind it
  is never reached).
\<close>

record fetch_result =
  messages :: "string list"
  fr_nextRoot :: string

record fetch_outcome =
  f_returned :: "fetch_result option"
  f_console :: "js_error list"
  f_delivered :: "string list"

definition fetch :: "externals \<Rightarrow> string \<Rightarrow> jsval \<Rightarrow> jsval \<Rightarrow> bool \<Rightarrow> fetch_outcome option" where
  "fetch ext root selectedMode sidekey cb =
     (let md = (if selectedMode = JStr ''public'' then Public else Old);
          key = (if truthy sidekey then sidekey else JStr [])
      in case fetch_loop (\<lambda>r. reader_next ext md r key) cb [] [] root of
           None \<Rightarrow> None
         | Some ex \<Rightarrow>
             (case le_caught ex of
                Some e \<Rightarrow>
                  Some \<lparr>f_returned = None, f_console = [e], f_delivered = le_delivered ex\<rparr>
              | None \<Rightarrow>
                  Some \<lparr>f_returned = Some \<lparr>messages = le_messages ex,
                                           fr_nextRoot = le_nextRoot ex\<rparr>,
                        f_console = [], f_delivered = le_delivered ex\<rparr>))"

text \<open>
  A chain of the ledger, as the reader shows it: from root \<open>r\<close> the reader
  finds the messages \<open>ms\<close> one after the other, each at the \<^verbatim>\<open>nextRoot\<close> of the
  one before, and then, at root \<open>rk\<close>, nothing.
\<close>

fun chain :: "(string \<Rightarrow> js_error + reader_result) \<Rightarrow> string \<Rightarrow> reader_message list \<Rightarrow> string \<Rightarrow> bool" where
  "chain rd r [] rk =
     (rk = r \<and> (case rd r of Inl e \<Rightarrow> False | Inr message \<Rightarrow> first_message message = None))"
| "chain rd r (m # ms) rk =
     ((case rd r of Inl e \<Rightarrow> False | Inr message \<Rightarrow> first_message message = Some m)
      \<and> chain rd (nextRoot m) ms rk)"

text \<open>The same, but behind the messages \<open>ms\<close> the reader raises \<open>e\<close>.\<close>

fun broken_chain :: "(string \<Rightarrow> js_error + reader_result) \<Rightarrow> string \<Rightarrow> reader_message list \<Rightarrow> js_error \<Rightarrow> bool" where
  "broken_chain rd r [] e = (rd r = Inl e)"
| "broken_chain rd r (m # ms) e =
     ((case rd r of Inl e' \<Rightarrow> False | Inr message \<Rightarrow> first_message message = Some m)
      \<and> broken_chain rd (nextRoot m) ms e)"

text \<open>
  A stand-in for the collaborators, for evaluating the model on concrete
  inputs: the codec returns fixed strings, the converter maps a character to
  its code and back, the sponge prepends the number of rounds, the ledger is
  empty and the reader finds nothing.
\<close>

definition stub :: externals where
  "stub =
     \<lparr>createMessage = (\<lambda>sd msg key ch.
         \<lparr>mam_payload = msg, mam_root = ''ROOT'', mam_next_root = ''NEXT''\<rparr>),
      decodeMessage = (\<lambda>p key r. Inr \<lparr>dec_payload = p, dec_next_root = r\<rparr>),
      trits = map (\<lambda>c. int (of_char c)),
      trytes = map (\<lambda>i. char_of (nat i)),
      encryption_hash = (\<lambda>n ts. n # ts),
      findTransactions = (\<lambda>addresses. Inr []),
      getTransactionObjects = (\<lambda>hashes. Inr []),
      reader_next = (\<lambda>m r key. Inr NoResult)\<rparr>"

text \<open>
  A reader over the chain \<open>R0 \<rightarrow> R1 \<rightarrow> R2\<close> that finds nothing at \<open>R3\<close>, a reader
  that finds one message at \<open>R0\<close> and raises at \<open>R1\<close>, and a ledger that holds the
  two transactions of one bundle.
\<close>

definition stub_chain :: externals where
  "stub_chain =
     stub\<lparr>reader_next := (\<lambda>m r key.
       if r = ''R0'' then Inr (Value [\<lparr>nextRoot = ''R1'', payload = ''P0''\<rparr>])
       else if r = ''R1'' then Inr (Value [\<lparr>nextRoot = ''R2'', payload = ''P1''\<rparr>])
       else if r = ''R2'' then Inr (Value [\<lparr>nextRoot = ''R3'', payload = ''P2''\<rparr>])
       else Inr (Value []))\<rparr>"

definition stub_broken :: externals where
  "stub_broken =
     stub\<lparr>reader_next := (\<lambda>m r key.
       if r = ''R0'' then Inr (Value [\<lparr>nextRoot = ''R1'', payload = ''P0''\<rparr>])
       else Inl (Thrown ''network''))\<rparr>"

definition stub_ledger :: externals where
  "stub_ledger =
     stub\<lparr>findTransactions := (\<lambda>addresses. Inr [''H0'', ''H1'']),
          getTransactionObjects := (\<lambda>hashes.
            Inr [tx ''B1'' 0 ''ABC'' 1, tx ''B1'' 1 ''XYZ'' 1])\<rparr>"

section \<open>Properties of the channel controller\<close>

lemma to_double_exact: "\<bar>x\<bar> \<le> 2 ^ 53 \<Longrightarrow> to_double x = x"
  by (simp add: to_double_def)

text \<open>
  Claim C1. For a channel state with \<open>0 \<le> index < count\<close> (hence \<open>1 \<le> count\<close>)
  whose numbers are in the range where every whole number is a double
  (\<open>count\<close> and the size of \<open>start + next_count\<close> at most \<open>2 ^ 53\<close>), the state
  that \<^verbatim>\<open>create\<close> returns has \<open>0 \<le> index < count\<close> again. When the index was
  \<open>count - 1\<close> it is 0 afterwards and \<open>start\<close> has grown by exactly the prior
  \<open>next_count\<close>; otherwise the index has grown by 1 and \<open>start\<close> is unchanged.
  \<open>count\<close> and \<open>next_count\<close> are unchanged in both cases.
\<close>

theorem create_advance:
  assumes "0 \<le> index (channel st)" and "index (channel st) < count (channel st)"
    and "1 \<le> count (channel st)"
    and "count (channel st) \<le> 2 ^ 53"
    and "\<bar>start (channel st) + next_count (channel st)\<bar> \<le> 2 ^ 53"
  shows "0 \<le> index (channel (cr_state (create ext st message)))
       \<and> index (channel (cr_state (create ext st message)))
           < count (channel (cr_state (create ext st message)))
       \<and> count (channel (cr_state (create ext st message))) = count (channel st)
       \<and> next_count (channel (cr_state (create ext st message))) = next_count (channel st)
       \<and> (if index (channel st) = count (channel st) - 1
          then index (channel (cr_state (create ext st message))) = 0
             \<and> start (channel (cr_state (create ext st message)))
                 = start (channel st) + next_count (channel st)
          else index (channel (cr_state (create ext st message))) = index (channel st) + 1
             \<and> start (channel (cr_state (create ext st message))) = start (channel st))"
proof -
  have c: "to_double (count (channel st) - 1) = count (channel st) - 1"
    using assms by (intro to_double_exact) simp
  have i: "to_double (index (channel st) + 1) = index (channel st) + 1"
    using assms by (intro to_double_exact) simp
  have s: "to_double (next_count (channel st) + start (channel st))
             = start (channel st) + next_count (channel st)"
    using assms to_double_exact [of "next_count (channel st) + start (channel st)"]
    by (simp add: add.commute)
  show ?thesis using assms by (simp add: create_def Let_def c i s)
qed

theorem create_advance_witness:
  "index (channel (cr_state (create stub (init ''SEED'' 2) ''MSG''))) = 0
   \<and> start (channel (cr_state (create stub (init ''SEED'' 2) ''MSG''))) = 1
   \<and> count (channel (cr_state (create stub (init ''SEED'' 2) ''MSG''))) = 1"
  using create_advance [of "init ''SEED'' 2" stub "''MSG''"]
  by (simp add: init_def)

text \<open>
  Claim C7. The attachment address is a function of the root, the mode and the
  number of rounds, and of nothing else (the two derivations below have no
  other argument and no state). In public mode it is the root itself, in
  \<^verbatim>\<open>create\<close> and in \<^verbatim>\<open>fetchSingle\<close>, so deriving again from the result
  changes nothing. In private and in restricted mode it is the tryte encoding
  of the hash of the root's trits: \<^verbatim>\<open>create\<close> hashes with 81 rounds,
  \<^verbatim>\<open>fetchSingle\<close> with the rounds it is given, and with 81 when they are left
  out. A number of rounds is not 0 (the helper \<^verbatim>\<open>hash\<close> reads 0 as "take 81").
\<close>

theorem address_derivation:
  "(mode (channel st) = JStr ''public'' \<longrightarrow>
      cr_address (create ext st message) = cr_root (create ext st message))
   \<and> (mode (channel st) = JStr ''private'' \<or> mode (channel st) = JStr ''restricted'' \<longrightarrow>
      cr_address (create ext st message)
        = trytes ext (encryption_hash ext 81 (trits ext (cr_root (create ext st message)))))
   \<and> fetchSingle_address ext root (JStr ''public'') rounds = root
   \<and> fetchSingle_address ext (fetchSingle_address ext root (JStr ''public'') rounds)
        (JStr ''public'') rounds = root
   \<and> (md = JStr ''private'' \<or> md = JStr ''restricted'' \<longrightarrow>
        (n \<noteq> 0 \<longrightarrow> fetchSingle_address ext root md (Some n)
                   = trytes ext (encryption_hash ext n (trits ext root)))
        \<and> fetchSingle_address ext root md None
            = trytes ext (encryption_hash ext 81 (trits ext root)))"
  by (auto simp add: create_def fetchSingle_address_def hash_def Let_def)

theorem address_derivation_witness:
  "cr_address (create stub (init ''SEED'' 2) ''MSG'') = ''ROOT''
   \<and> cr_address (create stub (cm_state (changeMode (init ''SEED'' 2) (JStr ''private'') JNull)) ''MSG'')
       = trytes stub (encryption_hash stub 81 (trits stub ''ROOT''))
   \<and> fetchSingle_address stub ''ROOT'' (JStr ''restricted'') (Some 27)
       = trytes stub (encryption_hash stub 27 (trits stub ''ROOT''))"
  using address_derivation [where st = "init ''SEED'' 2" and ext = stub and message = "''MSG''"]
    address_derivation [where st = "cm_state (changeMode (init ''SEED'' 2) (JStr ''private'') JNull)"
      and ext = stub and message = "''MSG''" and md = "JStr ''restricted''" and n = 27
      and root = "''ROOT''"]
  by (simp add: init_def changeMode_def stub_def create_def Let_def)

text \<open>
  Claim C9. When the mode is none of \<^verbatim>\<open>'public'\<close>, \<^verbatim>\<open>'private'\<close>, \<^verbatim>\<open>'restricted'\<close>,
  or is \<^verbatim>\<open>'restricted'\<close> with no side key (a falsy one), \<^verbatim>\<open>changeMode\<close> leaves
  the whole state as it was, so the mode and the side key of the channel keep
  their values; it writes one line to the console and returns \<^verbatim>\<open>undefined\<close>,
  not the state.
\<close>

theorem changeMode_rejects:
  assumes "(md \<noteq> JStr ''public'' \<and> md \<noteq> JStr ''private'' \<and> md \<noteq> JStr ''restricted'')
           \<or> (md = JStr ''restricted'' \<and> \<not> truthy sidekey)"
  shows "cm_state (changeMode st md sidekey) = st
       \<and> mode (channel (cm_state (changeMode st md sidekey))) = mode (channel st)
       \<and> side_key (channel (cm_state (changeMode st md sidekey))) = side_key (channel st)
       \<and> cm_returned (changeMode st md sidekey) = None
       \<and> cm_console (changeMode st md sidekey)
           = [if md = JStr ''restricted''
              then ''You must specify a side key for a restricted channel''
              else ''Did not recognise mode!'']"
  using assms by (auto simp add: changeMode_def)

theorem changeMode_rejects_witness:
  "cm_state (changeMode (init ''SEED'' 2) (JStr ''restricted'') JNull) = init ''SEED'' 2
   \<and> mode (channel (cm_state (changeMode (init ''SEED'' 2) (JStr ''restricted'') JNull)))
       = JStr ''public''
   \<and> cm_returned (changeMode (init ''SEED'' 2) (JStr ''restricted'') JNull) = None
   \<and> cm_state (changeMode (init ''SEED'' 2) (JStr ''secret'') (JStr ''KEY'')) = init ''SEED'' 2"
  using changeMode_rejects [of "JStr ''restricted''" JNull "init ''SEED'' 2"]
    changeMode_rejects [of "JStr ''secret''" "JStr ''KEY''" "init ''SEED'' 2"]
  by (simp add: init_def)

text \<open>
  Claim C10. When the mode is one of the three and a string of at least one
  and at most 81 characters is supplied as the side key, \<^verbatim>\<open>changeMode\<close> stores
  it followed by as many \<^verbatim>\<open>'9'\<close> as make 81 characters, and returns the state
  it has updated. (The empty string is falsy: the code reads it as no side
  key.)
\<close>

theorem changeMode_pads_side_key:
  assumes "md = JStr ''public'' \<or> md = JStr ''private'' \<or> md = JStr ''restricted''"
    and "s \<noteq> []" and "length s \<le> 81"
  shows "side_key (channel (cm_state (changeMode st md (JStr s))))
           = JStr (s @ replicate (81 - length s) CHR ''9'')
       \<and> length (s @ replicate (81 - length s) CHR ''9'') = 81
       \<and> mode (channel (cm_state (changeMode st md (JStr s)))) = md
       \<and> cm_returned (changeMode st md (JStr s)) = Some (cm_state (changeMode st md (JStr s)))"
  using assms by (auto simp add: changeMode_def padEnd_def Let_def)

theorem changeMode_pads_side_key_witness:
  "side_key (channel (cm_state (changeMode (init ''SEED'' 2) (JStr ''restricted'') (JStr ''ABC''))))
     = JStr (''ABC'' @ replicate 78 CHR ''9'')
   \<and> length (''ABC'' @ replicate 78 CHR ''9'') = 81"
  using changeMode_pads_side_key [of "JStr ''restricted''" "''ABC''" "init ''SEED'' 2"]
  by simp

section \<open>Properties of the fragment reassembler\<close>

lemma map_processTx_Cons:
  "map_processTx srt bs (t # ts) =
     (fst (map_processTx srt (fst (processTx srt bs t)) ts),
      snd (processTx srt bs t) # snd (map_processTx srt (fst (processTx srt bs t)) ts))"
  by (simp add: case_prod_unfold Let_def)

lemma push_fragment_recorded:
  "push_fragment bs t = recorded bs (tx_bundle t) @ [(currentIndex t, signatureMessageFragment t)]"
  by (simp add: push_fragment_def recorded_def split: option.splits)

lemma processTx_emits_iff:
  "(snd (processTx srt bs t) \<noteq> None) = (int (length (push_fragment bs t)) = lastIndex t + 1)"
  by (simp add: processTx_def Let_def)

lemma processTx_other_bundle:
  "tx_bundle t \<noteq> b \<Longrightarrow> fst (processTx srt bs t) b = bs b"
  by (simp add: processTx_def Let_def)

lemma processTx_own_bundle:
  "fst (processTx srt bs t) (tx_bundle t) =
     (if int (length (push_fragment bs t)) = lastIndex t + 1 then None
      else Some (push_fragment bs t))"
  by (simp add: processTx_def Let_def)

lemma recorded_other:
  "tx_bundle t \<noteq> b \<Longrightarrow> recorded (fst (processTx srt bs t)) b = recorded bs b"
  by (simp add: recorded_def processTx_other_bundle)

text \<open>
  While the entries of a bundle, those already recorded and those still to
  come, are fewer than the \<^verbatim>\<open>lastIndex + 1\<close> its fragments declare, none of its
  fragments makes \<^verbatim>\<open>processTx\<close> return a payload.
\<close>

lemma no_emit_while_incomplete:
  assumes "\<forall>t\<in>set ts. tx_bundle t = b \<longrightarrow> lastIndex t = m"
    and "int (length (recorded bs b)) + int (length (filter (\<lambda>t. tx_bundle t = b) ts)) < m + 1"
  shows "\<forall>(t, out)\<in>set (zip ts (snd (map_processTx srt bs ts))). tx_bundle t = b \<longrightarrow> out = None"
  using assms
proof (induction ts arbitrary: bs)
  case Nil
  then show ?case by simp
next
  case (Cons t ts)
  let ?bs1 = "fst (processTx srt bs t)"
  show ?case
  proof (cases "tx_bundle t = b")
    case True
    have len: "int (length (push_fragment bs t)) = int (length (recorded bs b)) + 1"
      using True by (simp add: push_fragment_recorded)
    have m: "lastIndex t = m" using Cons.prems(1) True by simp
    have ne: "int (length (push_fragment bs t)) \<noteq> lastIndex t + 1"
      using Cons.prems(2) True len m by simp
    have out: "snd (processTx srt bs t) = None"
      using processTx_emits_iff [of srt bs t] ne by simp
    have "?bs1 b = Some (push_fragment bs t)"
      using processTx_own_bundle [of srt bs t] ne True by simp
    then have rec: "int (length (recorded ?bs1 b)) = int (length (recorded bs b)) + 1"
      using len by (simp add: recorded_def)
    have "\<forall>(t, out)\<in>set (zip ts (snd (map_processTx srt ?bs1 ts))). tx_bundle t = b \<longrightarrow> out = None"
      using Cons.IH [of ?bs1] Cons.prems rec True by simp
    then show ?thesis using out by (simp add: map_processTx_Cons del: map_processTx.simps(2))
  next
    case False
    have "\<forall>(t, out)\<in>set (zip ts (snd (map_processTx srt ?bs1 ts))). tx_bundle t = b \<longrightarrow> out = None"
      using Cons.IH [of ?bs1] Cons.prems False by (simp add: recorded_other)
    then show ?thesis using False by (simp add: map_processTx_Cons del: map_processTx.simps(2))
  qed
qed

text \<open>
  When the fragments \<open>ts\<close> of a bundle, all declaring \<open>m\<close>, bring the entries of
  the bundle to \<open>m + 1\<close>, the last of them makes \<^verbatim>\<open>processTx\<close> return the payload
  of all the entries, none before it returns one, and the array is deleted.
\<close>

lemma emit_at_completion:
  assumes "\<forall>t\<in>set ts. tx_bundle t = b \<and> lastIndex t = m"
    and "ts \<noteq> []"
    and "int (length (recorded bs b)) + int (length ts) = m + 1"
  shows "snd (map_processTx srt bs ts) =
           replicate (length ts - 1) None
           @ [Some (foldl (\<lambda>acc n. acc @ snd n) []
                      (srt comparefn (recorded bs b
                         @ map (\<lambda>t. (currentIndex t, signatureMessageFragment t)) ts)))]
         \<and> fst (map_processTx srt bs ts) b = None"
  using assms
proof (induction ts arbitrary: bs)
  case Nil
  then show ?case by simp
next
  case (Cons t ts)
  let ?bs1 = "fst (processTx srt bs t)"
  have b: "tx_bundle t = b" and m: "lastIndex t = m" using Cons.prems(1) by simp_all
  have p: "push_fragment bs t = recorded bs b @ [(currentIndex t, signatureMessageFragment t)]"
    using b by (simp add: push_fragment_recorded)
  show ?case
  proof (cases "ts = []")
    case True
    have "int (length (push_fragment bs t)) = lastIndex t + 1"
      using Cons.prems(3) True m p by simp
    then show ?thesis using True b p
      by (simp add: processTx_def Let_def)
  next
    case False
    then have len: "0 < length ts" by simp
    have ne: "int (length (push_fragment bs t)) \<noteq> lastIndex t + 1"
      using Cons.prems(3) False m p by (cases ts) simp_all
    have out: "snd (processTx srt bs t) = None"
      using processTx_emits_iff [of srt bs t] ne by simp
    have own: "?bs1 b = Some (push_fragment bs t)"
      using processTx_own_bundle [of srt bs t] ne b by simp
    have rec: "recorded ?bs1 b = recorded bs b @ [(currentIndex t, signatureMessageFragment t)]"
      using own p by (simp add: recorded_def)
    have h1: "\<forall>t\<in>set ts. tx_bundle t = b \<and> lastIndex t = m"
      using Cons.prems(1) by simp
    have h3: "int (length (recorded ?bs1 b)) + int (length ts) = m + 1"
      using Cons.prems(3) by (simp add: rec)
    note ih = Cons.IH [OF h1 False h3]
    have rep: "replicate (length (t # ts) - 1) (None :: string option)
                 = None # replicate (length ts - 1) None"
      using len by (cases ts) simp_all
    show ?thesis
      unfolding map_processTx_Cons rep using ih out by (simp add: rec)
  qed
qed

lemma processTx_result:
  "processTx srt bs t =
     (if int (length (push_fragment bs t)) = lastIndex t + 1
      then (bs(tx_bundle t := None),
            Some (foldl (\<lambda>acc n. acc @ snd n) [] (srt comparefn (push_fragment bs t))))
      else (bs(tx_bundle t \<mapsto> push_fragment bs t), None))"
  by (simp add: processTx_def Let_def)

lemma processTx_cong_bundle:
  "bs (tx_bundle t) = bs' (tx_bundle t) \<Longrightarrow>
     snd (processTx srt bs t) = snd (processTx srt bs' t)
     \<and> fst (processTx srt bs t) (tx_bundle t) = fst (processTx srt bs' t) (tx_bundle t)"
  by (simp add: processTx_def Let_def push_fragment_def)

text \<open>
  What \<^verbatim>\<open>processTx\<close> returns for the fragments of one bundle, and the array it
  keeps for that bundle, are the same whether or not fragments of other
  bundles arrive in between.
\<close>

lemma other_bundles_irrelevant:
  "bs b = bs' b \<Longrightarrow>
     map snd (filter (\<lambda>(t, out). tx_bundle t = b) (zip ts (snd (map_processTx srt bs ts))))
       = snd (map_processTx srt bs' (filter (\<lambda>t. tx_bundle t = b) ts))
     \<and> fst (map_processTx srt bs ts) b
         = fst (map_processTx srt bs' (filter (\<lambda>t. tx_bundle t = b) ts)) b"
proof (induction ts arbitrary: bs bs')
  case Nil
  then show ?case by simp
next
  case (Cons t ts)
  show ?case
  proof (cases "tx_bundle t = b")
    case True
    have c: "snd (processTx srt bs t) = snd (processTx srt bs' t)"
      "fst (processTx srt bs t) b = fst (processTx srt bs' t) b"
      using processTx_cong_bundle [of bs t bs' srt] Cons.prems True by simp_all
    show ?thesis
      using Cons.IH [of "fst (processTx srt bs t)" "fst (processTx srt bs' t)"] c True
      by (simp add: map_processTx_Cons del: map_processTx.simps(2))
  next
    case False
    have "fst (processTx srt bs t) b = bs' b"
      using False Cons.prems by (simp add: processTx_other_bundle)
    from Cons.IH [of "fst (processTx srt bs t)" bs'] this show ?thesis using False
      by (simp add: map_processTx_Cons del: map_processTx.simps(2))
  qed
qed

subsection \<open>The sort of V8 under the comparison function of the module\<close>

lemma extend_run_nonneg:
  "(\<And>x y. 0 \<le> cmp x y) \<Longrightarrow> extend_run cmp False prev xs = length xs"
  by (induction xs arbitrary: prev) (simp_all add: Let_def not_less)

text \<open>
  A comparison function that never returns a negative number makes the first
  run cover the array, whatever its length: the sort leaves the array as it is.
\<close>

lemma ArrayTimSort_nonneg:
  assumes "\<And>x y. 0 \<le> cmp x y"
  shows "ArrayTimSort cmp xs = Some xs"
proof (cases xs)
  case Nil
  then show ?thesis by (simp add: ArrayTimSort_def)
next
  case (Cons x0 ys)
  show ?thesis
  proof (cases ys)
    case Nil
    with Cons show ?thesis by (simp add: ArrayTimSort_def)
  next
    case (Cons x1 rest)
    have "\<not> cmp x1 x0 < 0" using assms [of x1 x0] by simp
    with Cons \<open>xs = x0 # ys\<close> show ?thesis
      by (simp add: ArrayTimSort_def CountAndMakeRun_def Let_def extend_run_nonneg [OF assms])
  qed
qed

lemma comparefn_nonneg: "0 \<le> comparefn a b"
  by (simp add: comparefn_def)

lemma v8_sort_comparefn: "v8_sort comparefn l = l"
  by (simp add: v8_sort_def ArrayTimSort_nonneg [OF comparefn_nonneg])

lemma foldl_append_concat: "foldl (\<lambda>acc n. acc @ snd n) a l = a @ concat (map snd l)"
  by (induction l arbitrary: a) simp_all

text \<open>On V8 the payload is the concatenation of the contents in arrival order.\<close>

lemma processTx_v8_arrival_order:
  "snd (processTx v8_sort bs t) =
     (if int (length (push_fragment bs t)) = lastIndex t + 1
      then Some (concat (map snd (push_fragment bs t))) else None)"
  by (simp add: processTx_def Let_def v8_sort_comparefn foldl_append_concat)

lemma processTx_v8_bundles:
  "fst (processTx v8_sort bs t) =
     (if int (length (push_fragment bs t)) = lastIndex t + 1
      then bs(tx_bundle t := None) else bs(tx_bundle t \<mapsto> push_fragment bs t))"
  by (simp add: processTx_def Let_def)

text \<open>
  Claim C2, as amended. \<^verbatim>\<open>processTx\<close> pushes one entry for every fragment it is
  given onto the array of the fragment's bundle, so a position that arrives
  twice counts twice. It returns a payload exactly when that array, the new
  entry included, has \<^verbatim>\<open>lastIndex + 1\<close> entries, for the \<^verbatim>\<open>lastIndex\<close> of that
  fragment; it then deletes the array, and otherwise keeps it. A fragment of
  another bundle leaves the array of a bundle alone. Hence a bundle whose
  fragments all declare \<open>m\<close> and number fewer than \<open>m + 1\<close> is never emitted; a
  bundle whose fragments all declare \<open>k\<close> and number \<open>k + 1\<close> is emitted at the
  last of them and not before; and what is emitted for a bundle is what would
  be emitted if its fragments had arrived alone.
\<close>

theorem processTx_emits_on_entry_count:
  "(snd (processTx srt bs t) \<noteq> None) = (int (length (push_fragment bs t)) = lastIndex t + 1)
   \<and> push_fragment bs t
       = recorded bs (tx_bundle t) @ [(currentIndex t, signatureMessageFragment t)]
   \<and> processTx srt bs t =
       (if int (length (push_fragment bs t)) = lastIndex t + 1
        then (bs(tx_bundle t := None),
              Some (foldl (\<lambda>acc n. acc @ snd n) [] (srt comparefn (push_fragment bs t))))
        else (bs(tx_bundle t \<mapsto> push_fragment bs t), None))
   \<and> (tx_bundle t \<noteq> b \<longrightarrow> fst (processTx srt bs t) b = bs b)
   \<and> ((\<forall>t\<in>set ts. tx_bundle t = b \<longrightarrow> lastIndex t = m)
        \<and> int (length (filter (\<lambda>t. tx_bundle t = b) ts)) < m + 1 \<longrightarrow>
      (\<forall>(t, out)\<in>set (zip ts (snd (map_processTx srt Map.empty ts))).
          tx_bundle t = b \<longrightarrow> out = None))
   \<and> ((\<forall>t\<in>set cs. tx_bundle t = c \<and> lastIndex t = k) \<and> cs \<noteq> []
        \<and> int (length cs) = k + 1 \<longrightarrow>
      snd (map_processTx srt Map.empty cs) =
        replicate (length cs - 1) None
        @ [Some (foldl (\<lambda>acc n. acc @ snd n) []
                   (srt comparefn (map (\<lambda>t. (currentIndex t, signatureMessageFragment t)) cs)))]
      \<and> fst (map_processTx srt Map.empty cs) c = None)
   \<and> map snd (filter (\<lambda>(t, out). tx_bundle t = b)
                (zip ts (snd (map_processTx srt Map.empty ts))))
       = snd (map_processTx srt Map.empty (filter (\<lambda>t. tx_bundle t = b) ts))"
proof -
  have fewer: "(\<forall>t\<in>set ts. tx_bundle t = b \<longrightarrow> lastIndex t = m)
        \<and> int (length (filter (\<lambda>t. tx_bundle t = b) ts)) < m + 1 \<longrightarrow>
      (\<forall>(t, out)\<in>set (zip ts (snd (map_processTx srt Map.empty ts))).
          tx_bundle t = b \<longrightarrow> out = None)"
    using no_emit_while_incomplete [of ts b m Map.empty srt] by (simp add: recorded_def)
  have complete: "(\<forall>t\<in>set cs. tx_bundle t = c \<and> lastIndex t = k) \<and> cs \<noteq> []
        \<and> int (length cs) = k + 1 \<longrightarrow>
      snd (map_processTx srt Map.empty cs) =
        replicate (length cs - 1) None
        @ [Some (foldl (\<lambda>acc n. acc @ snd n) []
                   (srt comparefn (map (\<lambda>t. (currentIndex t, signatureMessageFragment t)) cs)))]
      \<and> fst (map_processTx srt Map.empty cs) c = None"
    using emit_at_completion [of cs c k Map.empty srt] by (simp add: recorded_def)
  have alone: "map snd (filter (\<lambda>(t, out). tx_bundle t = b)
                (zip ts (snd (map_processTx srt Map.empty ts))))
       = snd (map_processTx srt Map.empty (filter (\<lambda>t. tx_bundle t = b) ts))"
    using other_bundles_irrelevant [of Map.empty b Map.empty ts srt] by simp
  have other: "tx_bundle t \<noteq> b \<longrightarrow> fst (processTx srt bs t) b = bs b"
    by (simp add: processTx_other_bundle)
  from processTx_emits_iff [of srt bs t] push_fragment_recorded [of bs t]
    processTx_result [of srt bs t] other fewer complete alone
  show ?thesis by (intro conjI)
qed

theorem processTx_emits_on_entry_count_witness:
  "snd (map_processTx v8_sort Map.empty
          [tx ''B1'' 0 ''A'' 2, tx ''B2'' 0 ''X'' 1, tx ''B1'' 1 ''B'' 2, tx ''B2'' 1 ''Y'' 1])
     = [None, None, None, Some ''XY'']
   \<and> snd (map_processTx v8_sort Map.empty [tx ''B2'' 0 ''X'' 1, tx ''B2'' 1 ''Y'' 1])
     = [None, Some ''XY'']
   \<and> fst (processTx v8_sort Map.empty (tx ''B2'' 0 ''X'' 1)) ''B2'' = Some [(0, ''X'')]
   \<and> fst (processTx v8_sort Map.empty (tx ''B2'' 0 ''X'' 1)) ''B1'' = None"
  using processTx_emits_on_entry_count [of v8_sort Map.empty "tx ''B2'' 0 ''X'' 1" "''B1''"
      "[tx ''B1'' 0 ''A'' 2, tx ''B2'' 0 ''X'' 1, tx ''B1'' 1 ''B'' 2, tx ''B2'' 1 ''Y'' 1]" 2
      "[tx ''B2'' 0 ''X'' 1, tx ''B2'' 1 ''Y'' 1]" "''B2''" 1]
  by (simp add: tx_def map_processTx_Cons processTx_v8_arrival_order processTx_v8_bundles
      push_fragment_def del: map_processTx.simps(2))

text \<open>
  The claim as stated fails: the same fragment of bundle \<open>B1\<close>, position 0 of
  two, ingested twice, is emitted as a payload, although one position only
  has been recorded.
\<close>

theorem duplicates_complete_bundle_counterexample:
  "snd (map_processTx v8_sort Map.empty [tx ''B1'' 0 ''A'' 1, tx ''B1'' 0 ''A'' 1])
     = [None, Some ''AA'']
   \<and> length (remdups (map currentIndex [tx ''B1'' 0 ''A'' 1, tx ''B1'' 0 ''A'' 1])) = 1"
  by (simp add: tx_def map_processTx_Cons processTx_v8_arrival_order processTx_v8_bundles
      push_fragment_def del: map_processTx.simps(2))

text \<open>
  Claim C3, on the failing input. The two fragments of bundle \<open>B1\<close>, ingested
  with position 1 first, are reassembled on V8 as \<open>XYZABC\<close>: the sort, given a
  comparison function that answers 1 or 0, moves nothing, and the payload
  follows the order of arrival. Ingested with position 0 first they give
  \<open>ABCXYZ\<close>.
\<close>

theorem reassembly_follows_arrival_order:
  "snd (map_processTx v8_sort Map.empty [tx ''B1'' 1 ''XYZ'' 1, tx ''B1'' 0 ''ABC'' 1])
     = [None, Some ''XYZABC'']
   \<and> snd (map_processTx v8_sort Map.empty [tx ''B1'' 0 ''ABC'' 1, tx ''B1'' 1 ''XYZ'' 1])
     = [None, Some ''ABCXYZ'']"
  by (simp add: tx_def map_processTx_Cons processTx_v8_arrival_order processTx_v8_bundles
      push_fragment_def del: map_processTx.simps(2))

text \<open>
  Claim C4, as amended. A fragment whose position is already recorded for its
  bundle is pushed behind the entries recorded: the earlier entry stays, the
  array then holds at least two entries for that position, and it is this
  array that is kept, or, when it has reached \<^verbatim>\<open>lastIndex + 1\<close> entries, sorted
  and concatenated.
\<close>

theorem processTx_appends_duplicate:
  assumes "bs (tx_bundle t) = Some l" and "(currentIndex t, c) \<in> set l"
  shows "push_fragment bs t = l @ [(currentIndex t, signatureMessageFragment t)]
       \<and> (currentIndex t, c) \<in> set (push_fragment bs t)
       \<and> 2 \<le> length (filter (\<lambda>n. fst n = currentIndex t) (push_fragment bs t))
       \<and> processTx srt bs t =
           (if int (length l) + 1 = lastIndex t + 1
            then (bs(tx_bundle t := None),
                  Some (foldl (\<lambda>acc n. acc @ snd n) []
                          (srt comparefn (l @ [(currentIndex t, signatureMessageFragment t)]))))
            else (bs(tx_bundle t \<mapsto> l @ [(currentIndex t, signatureMessageFragment t)]), None))"
proof -
  have p: "push_fragment bs t = l @ [(currentIndex t, signatureMessageFragment t)]"
    using assms(1) by (simp add: push_fragment_def)
  have "filter (\<lambda>n. fst n = currentIndex t) l \<noteq> []"
    using assms(2) by (force simp add: filter_empty_conv)
  then have "1 \<le> length (filter (\<lambda>n. fst n = currentIndex t) l)"
    by (cases "filter (\<lambda>n. fst n = currentIndex t) l") simp_all
  then have two: "2 \<le> length (filter (\<lambda>n. fst n = currentIndex t) (push_fragment bs t))"
    by (simp add: p)
  have "processTx srt bs t =
           (if int (length l) + 1 = lastIndex t + 1
            then (bs(tx_bundle t := None),
                  Some (foldl (\<lambda>acc n. acc @ snd n) []
                          (srt comparefn (l @ [(currentIndex t, signatureMessageFragment t)]))))
            else (bs(tx_bundle t \<mapsto> l @ [(currentIndex t, signatureMessageFragment t)]), None))"
    by (simp add: processTx_def Let_def p)
  with p two assms(2) show ?thesis by simp
qed

theorem processTx_appends_duplicate_witness:
  "push_fragment [''B1'' \<mapsto> [(0, ''OLD'')]] (tx ''B1'' 0 ''NEW'' 2) = [(0, ''OLD''), (0, ''NEW'')]
   \<and> snd (processTx v8_sort [''B1'' \<mapsto> [(0, ''OLD'')]] (tx ''B1'' 0 ''NEW'' 2)) = None"
  using processTx_appends_duplicate [of "[''B1'' \<mapsto> [(0, ''OLD'')]]" "tx ''B1'' 0 ''NEW'' 2"
      "[(0, ''OLD'')]" "''OLD''" v8_sort]
  by (simp add: tx_def)

text \<open>
  The claim as stated fails: after two fragments for position 0 of bundle
  \<open>B1\<close> the array of the bundle holds both.
\<close>

theorem duplicate_position_counterexample:
  "fst (processTx v8_sort (fst (processTx v8_sort Map.empty (tx ''B1'' 0 ''OLD'' 2)))
          (tx ''B1'' 0 ''NEW'' 2)) ''B1''
     = Some [(0, ''OLD''), (0, ''NEW'')]"
  by (simp add: tx_def processTx_v8_bundles push_fragment_def)

section \<open>Properties of decoding and the single fetch\<close>

lemma decode_never_returns_decoded: "decode ext pl sidekey root \<noteq> Inr (Some d)"
  by (simp add: decode_def Let_def split: sum.splits)

lemma decode_cases:
  "decode ext pl sidekey root = Inr None \<or> (\<exists>e. decode ext pl sidekey root = Inl e)"
  by (simp add: decode_def Let_def split: sum.splits)

lemma fetchSingle_loop_undefined:
  "fetchSingle_loop ext sidekey root msgs console =
     (None, console @ map (\<lambda>m. case decode ext m sidekey root of
                                  Inl e \<Rightarrow> e | Inr v \<Rightarrow> TypeError) msgs)"
proof (induction msgs arbitrary: console)
  case Nil
  then show ?case by simp
next
  case (Cons m msgs)
  from decode_cases [of ext m sidekey root] show ?case
  proof
    assume "decode ext m sidekey root = Inr None"
    then show ?thesis using Cons.IH by simp
  next
    assume "\<exists>e. decode ext m sidekey root = Inl e"
    then show ?thesis using Cons.IH by auto
  qed
qed

text \<open>
  Claim C6. Whenever the codec hands a decoded message back, \<^verbatim>\<open>decode\<close> returns
  \<^verbatim>\<open>undefined\<close>, for every payload, side key and root; and whatever the codec
  does, \<^verbatim>\<open>decode\<close> never returns a decoded message (when the codec raises,
  \<^verbatim>\<open>decode\<close> raises the same). So every message that \<^verbatim>\<open>fetchSingle\<close> tries ends in
  the \<^verbatim>\<open>catch\<close> block, with one line on the console for each, a \<^verbatim>\<open>TypeError\<close>
  where \<^verbatim>\<open>decode\<close> returned; and \<^verbatim>\<open>fetchSingle\<close>, when the ledger client does not
  fail, returns \<^verbatim>\<open>undefined\<close>, never a payload.
\<close>

theorem decode_returns_undefined:
  "(decodeMessage ext pl (case sidekey of JStr s \<Rightarrow> JStr (padEnd s 81 CHR ''9'') | _ \<Rightarrow> sidekey) root
      = Inr d \<longrightarrow> decode ext pl sidekey root = Inr None)
   \<and> decode ext pl sidekey root \<noteq> Inr (Some d')
   \<and> fetchSingle_loop ext sidekey root msgs console =
       (None, console @ map (\<lambda>m. case decode ext m sidekey root of
                                    Inl e \<Rightarrow> e | Inr v \<Rightarrow> TypeError) msgs)
   \<and> (case fetchSingle ext srt root md sidekey rounds of
         Inl e \<Rightarrow> True
       | Inr (returned, console) \<Rightarrow> returned = None)"
proof -
  have "case fetchSingle ext srt root md sidekey rounds of
         Inl e \<Rightarrow> True
       | Inr (returned, console) \<Rightarrow> returned = None"
    by (simp add: fetchSingle_def Let_def fetchSingle_loop_undefined split: sum.splits)
  moreover have "decodeMessage ext pl
      (case sidekey of JStr s \<Rightarrow> JStr (padEnd s 81 CHR ''9'') | _ \<Rightarrow> sidekey) root
      = Inr d \<longrightarrow> decode ext pl sidekey root = Inr None"
    by (simp add: decode_def Let_def)
  ultimately show ?thesis
    using decode_never_returns_decoded [of ext pl sidekey root d']
      fetchSingle_loop_undefined [of ext sidekey root msgs console]
    by blast
qed

theorem decode_returns_undefined_witness:
  "decode stub_ledger ''ABCXYZ'' (JStr ''KEY'') ''ROOT'' = Inr None
   \<and> fetchSingle stub_ledger v8_sort ''ROOT'' (JStr ''public'') (JStr ''KEY'') None
       = Inr (None, [TypeError])"
  using decode_returns_undefined [of stub_ledger "''ABCXYZ''" "JStr ''KEY''" "''ROOT''"
      "\<lparr>dec_payload = ''ABCXYZ'', dec_next_root = ''ROOT''\<rparr>" _ "[''ABCXYZ'']" "[]"
      v8_sort "JStr ''public''" None]
  by (simp add: stub_ledger_def stub_def fetchSingle_def fetchSingle_address_def
      txHashesToMessages_def tx_def map_processTx_Cons processTx_v8_arrival_order
      processTx_v8_bundles push_fragment_def padEnd_def decode_def
      del: map_processTx.simps(2))

section \<open>Properties of the chain traversal\<close>

lemma fetch_loop_chain:
  "chain rd r ms rk \<Longrightarrow>
     fetch_loop rd cb msgs delivered r =
       Some \<lparr>le_caught = None, le_messages = msgs @ map payload ms,
             le_delivered = delivered @ (if cb then map payload ms else []),
             le_nextRoot = rk\<rparr>"
proof (induction ms arbitrary: r msgs delivered)
  case Nil
  then show ?case
    by (subst fetch_loop.simps) (simp split: sum.splits)
next
  case (Cons m ms)
  from Cons.prems have tl: "chain rd (nextRoot m) ms rk" by simp
  from Cons.prems obtain message where hd: "rd r = Inr message" "first_message message = Some m"
    by (auto split: sum.splits)
  show ?case
    by (subst fetch_loop.simps) (simp add: hd Cons.IH [OF tl])
qed

lemma fetch_loop_broken_chain:
  "broken_chain rd r ms e \<Longrightarrow>
     fetch_loop rd cb msgs delivered r =
       Some \<lparr>le_caught = Some e, le_messages = msgs @ map payload ms,
             le_delivered = delivered @ (if cb then map payload ms else []),
             le_nextRoot = last (r # map nextRoot ms)\<rparr>"
proof (induction ms arbitrary: r msgs delivered)
  case Nil
  then show ?case
    by (subst fetch_loop.simps) simp
next
  case (Cons m ms)
  from Cons.prems have tl: "broken_chain rd (nextRoot m) ms e" by simp
  from Cons.prems obtain message where hd: "rd r = Inr message" "first_message message = Some m"
    by (auto split: sum.splits)
  show ?case
    by (subst fetch_loop.simps) (simp add: hd Cons.IH [OF tl])
qed

lemma chain_last_root: "chain rd r ms rk \<Longrightarrow> rk = last (r # map nextRoot ms)"
  by (induction ms arbitrary: r) simp_all

text \<open>
  Claim C5. When the reader finds the messages \<open>ms\<close> (any number, none
  included) along the chain that starts at \<open>r0\<close> and nothing at the root \<open>rk\<close>
  behind them, \<^verbatim>\<open>fetch\<close> returns: its result holds the payloads of \<open>ms\<close>, as many
  and in the order of the chain, and \<open>rk\<close>, the last root it tried, as
  \<^verbatim>\<open>nextRoot\<close>. Nothing is written to the console, and a callback has been
  given each payload in turn.
\<close>

theorem fetch_finite_chain:
  assumes "chain (\<lambda>r. reader_next ext (if selectedMode = JStr ''public'' then Public else Old) r
                    (if truthy sidekey then sidekey else JStr [])) r0 ms rk"
  shows "fetch ext r0 selectedMode sidekey cb =
           Some \<lparr>f_returned = Some \<lparr>messages = map payload ms, fr_nextRoot = rk\<rparr>,
                 f_console = [],
                 f_delivered = (if cb then map payload ms else [])\<rparr>
         \<and> length (map payload ms) = length ms
         \<and> rk = last (r0 # map nextRoot ms)"
  using fetch_loop_chain [OF assms, of cb "[]" "[]"] chain_last_root [OF assms]
  by (simp add: fetch_def Let_def)

theorem fetch_finite_chain_witness:
  "fetch stub_chain ''R0'' (JStr ''public'') JNull True =
     Some \<lparr>f_returned = Some \<lparr>messages = [''P0'', ''P1'', ''P2''], fr_nextRoot = ''R3''\<rparr>,
           f_console = [], f_delivered = [''P0'', ''P1'', ''P2'']\<rparr>"
  using fetch_finite_chain [of stub_chain "JStr ''public''" JNull "''R0''"
      "[\<lparr>nextRoot = ''R1'', payload = ''P0''\<rparr>, \<lparr>nextRoot = ''R2'', payload = ''P1''\<rparr>,
        \<lparr>nextRoot = ''R3'', payload = ''P2''\<rparr>]" "''R3''" True]
  by (simp add: stub_chain_def stub_def)

text \<open>
  Claim C8, as amended. When the reader raises behind the messages \<open>ms\<close> of a
  chain, \<^verbatim>\<open>fetch\<close> still returns, and the loop has stopped at the root that
  raised; the error is written to the console; what \<^verbatim>\<open>fetch\<close> returns is not a
  result object, so neither the messages found so far nor the next root reach
  the caller through it. The payloads handed to the callback, when there is
  one, are all the caller has got.
\<close>

theorem fetch_aborts:
  assumes "broken_chain (\<lambda>r. reader_next ext (if selectedMode = JStr ''public'' then Public else Old) r
                    (if truthy sidekey then sidekey else JStr [])) r0 ms e"
  shows "fetch ext r0 selectedMode sidekey cb =
           Some \<lparr>f_returned = None, f_console = [e],
                 f_delivered = (if cb then map payload ms else [])\<rparr>"
  using fetch_loop_broken_chain [OF assms, of cb "[]" "[]"]
  by (simp add: fetch_def Let_def)

theorem fetch_aborts_witness:
  "fetch stub_broken ''R0'' (JStr ''public'') JNull True =
     Some \<lparr>f_returned = None, f_console = [Thrown ''network''], f_delivered = [''P0'']\<rparr>"
  using fetch_aborts [of stub_broken "JStr ''public''" JNull "''R0''"
      "[\<lparr>nextRoot = ''R1'', payload = ''P0''\<rparr>]" "Thrown ''network''" True]
  by (simp add: stub_broken_def stub_def)

text \<open>
  The claim as stated fails: the reader finds \<open>P0\<close> at \<open>R0\<close> and raises at
  \<open>R1\<close>; \<^verbatim>\<open>fetch\<close>, called without a callback, returns \<^verbatim>\<open>undefined\<close>, which
  carries neither the error nor \<open>P0\<close>.
\<close>

theorem fetch_drops_partial_result_counterexample:
  "fetch stub_broken ''R0'' (JStr ''public'') JNull False =
     Some \<lparr>f_returned = None, f_console = [Thrown ''network''], f_delivered = []\<rparr>"
  using fetch_loop_broken_chain [of "\<lambda>r. reader_next stub_broken Public r (JStr [])" "''R0''"
      "[\<lparr>nextRoot = ''R1'', payload = ''P0''\<rparr>]" "Thrown ''network''" False "[]" "[]"]
  by (simp add: fetch_def Let_def stub_broken_def stub_def)

end
